theory Spec2Isabelle
  imports
    Main
    "HOL-Library.Sublist"
    "HOL-Library.AList"
    "HOL-Library.Char_ord"
    "HOL-Library.List_Lexorder"
begin

section \<open>Python strings\<close>

text \<open>
  The content tools of \<^verbatim>\<open>kernel_tools/content_tools.py\<close> work on Python \<^verbatim>\<open>str\<close> values. A
  \<^verbatim>\<open>str\<close> is modelled as a \<^typ>\<open>string\<close>, one \<^typ>\<open>char\<close> per code point, which covers the
  code points U+0000 to U+00FF; \<^verbatim>\<open>len\<close> is \<^const>\<open>length\<close> and \<^verbatim>\<open>+\<close> is \<open>@\<close>. The
  built-in string methods the tools call are written out below with the meaning the
  Python language reference and CPython's \<^verbatim>\<open>unicodeobject.c\<close> give them on that range.
\<close>

definition code :: "char \<Rightarrow> nat" where
  "code c = of_char c"

text \<open>
  \<^verbatim>\<open>str.isspace\<close> on one character: the code points of bidirectional class WS, B or S, or
  of category Zs. Below U+0100 these are U+0009 to U+000D, U+001C to U+0020, U+0085 and
  U+00A0.
\<close>

definition is_space :: "char \<Rightarrow> bool" where
  "is_space c =
     (let n = code c in (9 \<le> n \<and> n \<le> 13) \<or> (28 \<le> n \<and> n \<le> 32) \<or> n = 133 \<or> n = 160)"

text \<open>
  The \<^verbatim>\<open>Uppercase\<close> and \<^verbatim>\<open>Lowercase\<close> properties of the Unicode database: A to Z, U+00C0 to
  U+00DE without the multiplication sign; a to z, U+00DF to U+00FF without the division
  sign, the micro sign and the two ordinal indicators. No code point below U+0100 is
  titlecase.
\<close>

definition is_upper_char :: "char \<Rightarrow> bool" where
  "is_upper_char c =
     (let n = code c in (65 \<le> n \<and> n \<le> 90) \<or> (192 \<le> n \<and> n \<le> 222 \<and> n \<noteq> 215))"

definition is_lower_char :: "char \<Rightarrow> bool" where
  "is_lower_char c =
     (let n = code c in
        (97 \<le> n \<and> n \<le> 122) \<or> n = 170 \<or> n = 181 \<or> n = 186 \<or>
        (223 \<le> n \<and> n \<le> 255 \<and> n \<noteq> 247))"

text \<open>A cased character is an uppercase, a lowercase or a titlecase one.\<close>

definition is_cased :: "char \<Rightarrow> bool" where
  "is_cased c = (is_upper_char c \<or> is_lower_char c)"

text \<open>
  \<^verbatim>\<open>str.isupper\<close>: no character is lowercase (or titlecase) and at least one is uppercase.
  CPython scans the string once, returns False at the first lowercase character and
  otherwise whether it met an uppercase one.
\<close>

fun isupper_scan :: "string \<Rightarrow> bool \<Rightarrow> bool" where
  "isupper_scan [] cased = cased"
| "isupper_scan (c # cs) cased =
     (if is_lower_char c then False
      else if \<not> cased \<and> is_upper_char c then isupper_scan cs True
      else isupper_scan cs cased)"

definition isupper :: "string \<Rightarrow> bool" where
  "isupper s = isupper_scan s False"

text \<open>\<^verbatim>\<open>str.strip()\<close> removes the leading and the trailing whitespace.\<close>

definition lstrip :: "string \<Rightarrow> string" where
  "lstrip s = dropWhile is_space s"

definition rstrip :: "string \<Rightarrow> string" where
  "rstrip s = rev (dropWhile is_space (rev s))"

definition strip :: "string \<Rightarrow> string" where
  "strip s = rstrip (lstrip s)"

text \<open>\<^verbatim>\<open>s.startswith(p)\<close>, \<^verbatim>\<open>s.endswith(p)\<close> and \<^verbatim>\<open>p in s\<close>.\<close>

definition startswith :: "string \<Rightarrow> string \<Rightarrow> bool" where
  "startswith s p = (take (length p) s = p)"

definition endswith :: "string \<Rightarrow> string \<Rightarrow> bool" where
  "endswith s p = (length p \<le> length s \<and> drop (length s - length p) s = p)"

fun contains :: "string \<Rightarrow> string \<Rightarrow> bool" where
  "contains [] p = (p = [])"
| "contains (c # cs) p = (startswith (c # cs) p \<or> contains cs p)"

text \<open>
  \<^verbatim>\<open>s.split('\n')\<close>: the pieces between the newlines, empty pieces kept, so that a string
  without a newline is one piece and the empty string is one empty piece.
\<close>

fun split_acc :: "char \<Rightarrow> string \<Rightarrow> string \<Rightarrow> string list" where
  "split_acc sep [] piece = [piece]"
| "split_acc sep (c # cs) piece =
     (if c = sep then piece # split_acc sep cs [] else split_acc sep cs (piece @ [c]))"

definition newline :: char where
  "newline = CHR 0x0A"

definition split_lines :: "string \<Rightarrow> string list" where
  "split_lines s = split_acc newline s []"

text \<open>\<^verbatim>\<open>s.replace(a, b)\<close> for one-character \<^verbatim>\<open>a\<close> and \<^verbatim>\<open>b\<close>.\<close>

definition replace_char :: "char \<Rightarrow> char \<Rightarrow> string \<Rightarrow> string" where
  "replace_char a b s = map (\<lambda>c. if c = a then b else c) s"

text \<open>
  \<^verbatim>\<open>str(n)\<close> of an integer, as an f-string renders it: the decimal digits, most
  significant first, after a minus sign when the number is negative.
\<close>

definition digit_char :: "nat \<Rightarrow> char" where
  "digit_char d = char_of (48 + d)"

fun str_nat :: "nat \<Rightarrow> string" where
  "str_nat n = (if n < 10 then [digit_char n] else str_nat (n div 10) @ [digit_char (n mod 10)])"

declare str_nat.simps [simp del]

definition str_int :: "int \<Rightarrow> string" where
  "str_int i = (if i < 0 then CHR ''-'' # str_nat (nat (- i)) else str_nat (nat i))"

section \<open>Summarisation stand-in\<close>

text \<open>
  \<^verbatim>\<open>summarize_text(text, max_length)\<close>: the text itself when it fits, the placeholder
  sentence with both numbers otherwise. \<^verbatim>\<open>max_length\<close> is a Python \<^verbatim>\<open>int\<close>.
\<close>

definition summarize_text :: "string \<Rightarrow> int \<Rightarrow> string" where
  "summarize_text text max_length =
     (if int (length text) \<le> max_length then text
      else ''This is a placeholder for text summarization. In a real implementation, '' @
           ''this would call the Azure OpenAI service to summarize the input text '' @
           ''which is '' @ str_nat (length text) @ '' characters long to a maximum of '' @
           str_int max_length @ '' characters.'')"

section \<open>JSON encoding\<close>

text \<open>
  The values the tools hand to \<^verbatim>\<open>json.dumps\<close>: strings, integers, lists and dictionaries
  (an association list in insertion order, as a Python \<^verbatim>\<open>dict\<close> iterates).
\<close>

datatype json =
    JString string
  | JInt int
  | JArray "json list"
  | JObject "(string \<times> json) list"

definition dquote :: char where
  "dquote = CHR 0x22"

definition backslash :: char where
  "backslash = CHR 0x5C"

definition hex_digit :: "nat \<Rightarrow> char" where
  "hex_digit d = (if d < 10 then char_of (48 + d) else char_of (87 + d))"

text \<open>\<^verbatim>\<open>'\\u{0:04x}'.format(n)\<close> for a code point below U+0100.\<close>

definition unicode_escape :: "char \<Rightarrow> string" where
  "unicode_escape c =
     [backslash, CHR ''u'', CHR ''0'', CHR ''0'', hex_digit (code c div 16), hex_digit (code c mod 16)]"

text \<open>
  The encoder's escape table: the backslash, the double quote and the control characters
  always; with \<^verbatim>\<open>ensure_ascii\<close> also every character outside the range from the space
  to the tilde.
\<close>

definition escape_char :: "bool \<Rightarrow> char \<Rightarrow> string" where
  "escape_char ensure_ascii c =
     (if c = backslash then [backslash, backslash]
      else if c = dquote then [backslash, dquote]
      else if code c = 8 then [backslash, CHR ''b'']
      else if code c = 12 then [backslash, CHR ''f'']
      else if code c = 10 then [backslash, CHR ''n'']
      else if code c = 13 then [backslash, CHR ''r'']
      else if code c = 9 then [backslash, CHR ''t'']
      else if code c < 32 then unicode_escape c
      else if ensure_ascii \<and> 126 < code c then unicode_escape c
      else [c])"

definition encode_string :: "bool \<Rightarrow> string \<Rightarrow> string" where
  "encode_string ensure_ascii s = dquote # concat (map (escape_char ensure_ascii) s) @ [dquote]"

text \<open>\<^verbatim>\<open>sep.join(parts)\<close>.\<close>

fun join :: "string \<Rightarrow> string list \<Rightarrow> string" where
  "join sep [] = []"
| "join sep [p] = p"
| "join sep (p # q # ps) = p @ sep @ join sep (q # ps)"

text \<open>\<^verbatim>\<open>json.dumps(value, ensure_ascii=...)\<close> with the default separators.\<close>

fun dumps :: "bool \<Rightarrow> json \<Rightarrow> string" where
  "dumps ea (JString s) = encode_string ea s"
| "dumps ea (JInt i) = str_int i"
| "dumps ea (JArray xs) = ''['' @ join '', '' (map (dumps ea) xs) @ '']''"
| "dumps ea (JObject kvs) =
     ''{'' @ join '', '' (map (\<lambda>kv. encode_string ea (fst kv) @ '': '' @ dumps ea (snd kv)) kvs) @ ''}''"

text \<open>
  \<^verbatim>\<open>json.dumps(value, ensure_ascii=..., indent=n)\<close>: every item of a non-empty list or
  dictionary on a line of its own, \<open>n\<close> spaces deeper than its container, the items
  separated by a comma without a space.
\<close>

definition newline_indent :: "nat \<Rightarrow> string" where
  "newline_indent k = newline # replicate k CHR '' ''"

fun dumps_indent :: "bool \<Rightarrow> nat \<Rightarrow> nat \<Rightarrow> json \<Rightarrow> string" where
  "dumps_indent ea n level (JString s) = encode_string ea s"
| "dumps_indent ea n level (JInt i) = str_int i"
| "dumps_indent ea n level (JArray xs) =
     (if xs = [] then ''[]''
      else ''['' @ newline_indent (n * Suc level) @
           join ('','' @ newline_indent (n * Suc level)) (map (dumps_indent ea n (Suc level)) xs) @
           newline_indent (n * level) @ '']'')"
| "dumps_indent ea n level (JObject kvs) =
     (if kvs = [] then ''{}''
      else ''{'' @ newline_indent (n * Suc level) @
           join ('','' @ newline_indent (n * Suc level))
             (map (\<lambda>kv. encode_string ea (fst kv) @ '': '' @ dumps_indent ea n (Suc level) (snd kv)) kvs) @
           newline_indent (n * level) @ ''}'')"

section \<open>Section segmentation\<close>

text \<open>
  \<^verbatim>\<open>parse_sections(text, min_section_length)\<close>. A section is the dictionary
  \<^verbatim>\<open>{"title": ..., "content": ...}\<close>.
\<close>

record section_dict =
  title :: string
  content :: string

text \<open>The heading heuristic, the four alternatives in the order of the source.\<close>

definition is_heading :: "string \<Rightarrow> bool" where
  "is_heading line =
     ((length line < 100 \<and> isupper line) \<or>
      (length line < 80 \<and> endswith line '':'') \<or>
      list_ex (startswith line) [''#'', ''Chapter'', ''Section''] \<or>
      (length line < 60 \<and> \<not> endswith line ''.'' \<and> \<not> endswith line '',''))"

text \<open>\<^verbatim>\<open>len(current_section["content"]) >= min_section_length\<close>.\<close>

definition long_enough :: "int \<Rightarrow> section_dict \<Rightarrow> bool" where
  "long_enough min_section_length s = (min_section_length \<le> int (length (content s)))"

text \<open>
  The loop over the lines. Its state is the pair of \<^verbatim>\<open>sections\<close>, the list built so
  far, and \<^verbatim>\<open>current_section\<close>.
\<close>

fun scan_lines :: "int \<Rightarrow> string list \<Rightarrow> section_dict list \<times> section_dict \<Rightarrow> section_dict list \<times> section_dict" where
  "scan_lines m [] st = st"
| "scan_lines m (raw # rest) (sections, current) =
     (let line = strip raw in
      if line = [] then scan_lines m rest (sections, current)
      else if is_heading line then
        scan_lines m rest
          (if long_enough m current then sections @ [current] else sections,
           \<lparr>title = line, content = []\<rparr>)
      else
        scan_lines m rest (sections, current\<lparr>content := content current @ line @ [newline]\<rparr>))"

definition introduction :: section_dict where
  "introduction = \<lparr>title = ''Introduction'', content = []\<rparr>"

text \<open>The value of \<^verbatim>\<open>sections\<close> when the function reaches its \<^verbatim>\<open>return\<close>.\<close>

definition parse_sections_list :: "string \<Rightarrow> int \<Rightarrow> section_dict list" where
  "parse_sections_list text min_section_length =
     (case scan_lines min_section_length (split_lines text) ([], introduction) of
        (sections, current) \<Rightarrow>
          if long_enough min_section_length current then sections @ [current] else sections)"

definition section_json :: "section_dict \<Rightarrow> json" where
  "section_json s = JObject [(''title'', JString (title s)), (''content'', JString (content s))]"

text \<open>
  No statement of the \<^verbatim>\<open>try\<close> block raises on a \<^verbatim>\<open>str\<close> and an \<^verbatim>\<open>int\<close>, so the
  \<^verbatim>\<open>except\<close> branch is not a branch of the model.
\<close>

definition parse_sections :: "string \<Rightarrow> int \<Rightarrow> string" where
  "parse_sections text min_section_length =
     dumps False (JArray (map section_json (parse_sections_list text min_section_length)))"

section \<open>Text extraction\<close>

text \<open>
  \<^verbatim>\<open>extract_text_from_pdf(file_path)\<close> reads the file system and the PyMuPDF library. Both
  are a parameter of the model: which paths exist, and what \<^verbatim>\<open>fitz.open\<close> gives for a
  path, either an exception (\<open>Inl\<close> of its message \<^verbatim>\<open>str(e)\<close>) or a document, the list of
  its pages. A page is what \<^verbatim>\<open>doc[page_num].get_text()\<close> gives: the text, or an
  exception raised by loading the page or by reading its text.
\<close>

type_synonym page = "string + string"

record pdf_world =
  path_exists :: "string \<Rightarrow> bool"
  fitz_open :: "string \<Rightarrow> string + page list"

text \<open>The document handle: never opened, opened and not closed, or closed.\<close>

datatype handle_state = Not_Opened | Opened | Closed

text \<open>The loop over the pages; it stops at the first exception.\<close>

fun read_pages :: "page list \<Rightarrow> string \<Rightarrow> string + string" where
  "read_pages [] text = Inr text"
| "read_pages (p # ps) text =
     (case p of Inl e \<Rightarrow> Inl e | Inr page_text \<Rightarrow> read_pages ps (text @ page_text))"

text \<open>
  The body of the \<^verbatim>\<open>try\<close> block: the value it returns or the exception it raises, and
  the state of the handle at that moment. \<^verbatim>\<open>doc.close()\<close> is the statement after the
  loop.
\<close>

definition extract_body :: "pdf_world \<Rightarrow> string \<Rightarrow> (string + string) \<times> handle_state" where
  "extract_body w file_path =
     (if \<not> path_exists w file_path then (Inr (''Error: File not found at '' @ file_path), Not_Opened)
      else case fitz_open w file_path of
             Inl e \<Rightarrow> (Inl e, Not_Opened)
           | Inr doc \<Rightarrow>
               (case read_pages doc [] of
                  Inl e \<Rightarrow> (Inl e, Opened)
                | Inr text \<Rightarrow> (Inr text, Closed)))"

record extraction =
  returned :: string
  handle :: handle_state
  logged :: "string list"

text \<open>The \<^verbatim>\<open>except Exception\<close> clause logs the message and returns it.\<close>

definition extract_text_from_pdf :: "pdf_world \<Rightarrow> string \<Rightarrow> extraction" where
  "extract_text_from_pdf w file_path =
     (case extract_body w file_path of
        (Inr text, h) \<Rightarrow> \<lparr>returned = text, handle = h, logged = []\<rparr>
      | (Inl e, h) \<Rightarrow>
          \<lparr>returned = ''Error extracting text from PDF: '' @ e, handle = h,
           logged = [''Error extracting text from PDF: '' @ e]\<rparr>)"

section \<open>Stand-in operations\<close>

text \<open>
  \<^verbatim>\<open>get_documents_from_sharepoint(site_url, library_name, username, password)\<close>; the two
  credentials default to \<^verbatim>\<open>None\<close>.
\<close>

definition example_docs :: json where
  "example_docs = JArray
     [JObject [(''name'', JString ''Product_Specifications.pdf''), (''size'', JString ''1.2 MB''),
               (''modified'', JString ''2025-07-30'')],
      JObject [(''name'', JString ''Technical_Manual.docx''), (''size'', JString ''3.5 MB''),
               (''modified'', JString ''2025-08-01'')],
      JObject [(''name'', JString ''Project_Plan.xlsx''), (''size'', JString ''0.8 MB''),
               (''modified'', JString ''2025-08-02'')]]"

definition get_documents_from_sharepoint ::
    "string \<Rightarrow> string \<Rightarrow> string option \<Rightarrow> string option \<Rightarrow> string" where
  "get_documents_from_sharepoint site_url library_name username password =
     dumps False (JObject [(''site'', JString site_url), (''library'', JString library_name),
                           (''documents'', example_docs)])"

text \<open>\<^verbatim>\<open>extract_tables_from_pdf(file_path)\<close>.\<close>

definition example_table :: json where
  "example_table = JArray
     [JArray [JString ''ID'', JString ''Name'', JString ''Department'', JString ''Role''],
      JArray [JString ''1'', JString ''John Smith'', JString ''Engineering'', JString ''Senior Developer''],
      JArray [JString ''2'', JString ''Jane Doe'', JString ''Marketing'', JString ''Director''],
      JArray [JString ''3'', JString ''Robert Johnson'', JString ''Finance'', JString ''Analyst'']]"

definition extract_tables_from_pdf :: "string \<Rightarrow> string" where
  "extract_tables_from_pdf file_path =
     dumps False (JObject [(''file'', JString file_path),
                           (''tables'', JArray [JObject [(''page'', JInt 1), (''data'', example_table)]])])"

section \<open>Capability registry\<close>

text \<open>
  \<^verbatim>\<open>str.lower\<close> and \<^verbatim>\<open>str.title\<close>. Every uppercase letter below U+0100 has its lowercase
  form 32 code points higher. \<^verbatim>\<open>title\<close> gives a character its titlecase form after an
  uncased character and its lowercase form after a cased one; the titlecase form of a
  lowercase letter is 32 code points lower, that of the sharp s is \<^verbatim>\<open>Ss\<close>, the ordinal
  indicators have none, and those of the micro sign and of U+00FF lie above U+00FF: the
  model leaves these two characters as they are.
\<close>

definition lower_char :: "char \<Rightarrow> char" where
  "lower_char c = (if is_upper_char c then char_of (code c + 32) else c)"

definition lower :: "string \<Rightarrow> string" where
  "lower s = map lower_char s"

definition title_char :: "char \<Rightarrow> string" where
  "title_char c =
     (let n = code c in
      if (97 \<le> n \<and> n \<le> 122) \<or> (224 \<le> n \<and> n \<le> 254 \<and> n \<noteq> 247) then [char_of (n - 32)]
      else if n = 223 then ''Ss''
      else [c])"

fun title_scan :: "string \<Rightarrow> bool \<Rightarrow> string" where
  "title_scan [] previous_is_cased = []"
| "title_scan (c # cs) previous_is_cased =
     (if previous_is_cased then [lower_char c] else title_char c) @ title_scan cs (is_cased c)"

definition title_str :: "string \<Rightarrow> string" where
  "title_str s = title_scan s False"

text \<open>
  What reflection shows of a class. A member of the class is a plain function (a
  \<^verbatim>\<open>staticmethod\<close> read through the class), a bound method (a \<^verbatim>\<open>classmethod\<close> read
  through the class) or any other attribute; \<^verbatim>\<open>inspect.isfunction\<close> holds of the first
  kind only. A type hint is seen through its \<^verbatim>\<open>__name__\<close>, when it has one, and through
  \<^verbatim>\<open>str(type_obj)\<close>.
\<close>

datatype member_kind = Function | Bound_Method | Attribute

datatype type_obj = Type_Obj (type_name: "string option") (type_str: string)

record parameter =
  param_name :: string
  hint :: "type_obj option"

text \<open>
  \<open>kernel_marker\<close> is \<open>None\<close> when the member has no attribute
  \<^verbatim>\<open>__kernel_function__\<close>, and otherwise holds
  \<^verbatim>\<open>getattr(method.__kernel_function__, "description", None)\<close>; \<open>doc\<close> is \<^verbatim>\<open>__doc__\<close>;
  \<open>annotations_str\<close> is \<^verbatim>\<open>str(getattr(method, "__annotations__", {}))\<close>;
  \<open>parameters\<close> are the items of \<^verbatim>\<open>inspect.signature(method).parameters\<close>, each with
  its entry of \<^verbatim>\<open>get_type_hints(method)\<close>. A member is described by what these calls
  return: a class on which one of them raises has no description here.
\<close>

record member =
  kind :: member_kind
  kernel_marker :: "string option option"
  doc :: "string option"
  annotations_str :: string
  parameters :: "parameter list"

record py_class =
  agent_name :: string
  members :: "(string \<times> member) list"

text \<open>
  \<^verbatim>\<open>inspect.getmembers(cls, predicate=inspect.isfunction)\<close>: the members the predicate
  holds of, as pairs of name and value, sorted by name.
\<close>

definition getmembers_isfunction :: "py_class \<Rightarrow> (string \<times> member) list" where
  "getmembers_isfunction cls = sort_key fst (filter (\<lambda>nm. kind (snd nm) = Function) (members cls))"

text \<open>
  \<^verbatim>\<open>get_all_kernel_functions\<close>. The dictionary it builds is an association list in
  insertion order; \<^verbatim>\<open>kernel_functions[name] = method\<close> is \<^const>\<open>AList.update\<close>.
\<close>

fun collect_kernel_functions ::
    "(string \<times> member) list \<Rightarrow> (string \<times> member) list \<Rightarrow> (string \<times> member) list" where
  "collect_kernel_functions [] kernel_functions = kernel_functions"
| "collect_kernel_functions ((name, method) # rest) kernel_functions =
     (if startswith name ''_'' \<or> name = ''get_all_kernel_functions''
      then collect_kernel_functions rest kernel_functions
      else if kernel_marker method \<noteq> None \<or> contains (annotations_str method) ''kernel_function''
      then collect_kernel_functions rest (AList.update name method kernel_functions)
      else collect_kernel_functions rest kernel_functions)"

definition get_all_kernel_functions :: "py_class \<Rightarrow> (string \<times> member) list" where
  "get_all_kernel_functions cls = collect_kernel_functions (getmembers_isfunction cls) []"

text \<open>The type of a parameter, as the schema names it.\<close>

definition param_type :: "type_obj option \<Rightarrow> string" where
  "param_type h =
     (case h of
        None \<Rightarrow> ''string''
      | Some type_obj \<Rightarrow>
          (case type_name type_obj of
             Some n \<Rightarrow> lower n
           | None \<Rightarrow>
               (let t = lower (type_str type_obj) in
                if contains t ''int'' then ''int''
                else if contains t ''float'' then ''float''
                else if contains t ''bool'' then ''boolean''
                else ''string'')))"

definition param_entry :: "parameter \<Rightarrow> json" where
  "param_entry p =
     JObject [(''description'', JString (param_name p)),
              (''title'', JString (title_str (replace_char CHR ''_'' CHR '' '' (param_name p)))),
              (''type'', JString (param_type (hint p)))]"

text \<open>The loop over the parameters, which fills \<^verbatim>\<open>args_dict\<close>.\<close>

fun collect_args :: "parameter list \<Rightarrow> (string \<times> json) list \<Rightarrow> (string \<times> json) list" where
  "collect_args [] args_dict = args_dict"
| "collect_args (p # ps) args_dict =
     (if param_name p \<in> set [''cls'', ''self''] then collect_args ps args_dict
      else collect_args ps (AList.update (param_name p) (param_entry p) args_dict))"

text \<open>\<^verbatim>\<open>json.dumps(args_dict).replace('"', "'")\<close>.\<close>

definition arguments_str :: "parameter list \<Rightarrow> string" where
  "arguments_str ps = replace_char dquote CHR 0x27 (dumps True (JObject (collect_args ps [])))"

text \<open>
  The description: the stripped docstring when there is a non-empty one, replaced by the
  description of the marker when that is present and non-empty.
\<close>

definition truthy :: "string option \<Rightarrow> bool" where
  "truthy v = (case v of None \<Rightarrow> False | Some s \<Rightarrow> s \<noteq> [])"

definition describe :: "member \<Rightarrow> string" where
  "describe method =
     (let description = (if truthy (doc method) then strip (the (doc method)) else [])
      in case kernel_marker method of
           Some d \<Rightarrow> if truthy d then the d else description
         | None \<Rightarrow> description)"

record tool_entry =
  agent :: string
  function_name :: string
  description :: string
  arguments :: string

fun collect_tools :: "string \<Rightarrow> (string \<times> member) list \<Rightarrow> tool_entry list \<Rightarrow> tool_entry list" where
  "collect_tools ag [] tools_list = tools_list"
| "collect_tools ag ((name, method) # rest) tools_list =
     (if startswith name ''_'' \<or> name = ''generate_tools_json_doc''
      then collect_tools ag rest tools_list
      else if kernel_marker method \<noteq> None
      then collect_tools ag rest
             (tools_list @
              [\<lparr>agent = ag, function_name = name, description = describe method,
                arguments = arguments_str (parameters method)\<rparr>])
      else collect_tools ag rest tools_list)"

text \<open>The value of \<^verbatim>\<open>tools_list\<close> when \<^verbatim>\<open>generate_tools_json_doc\<close> reaches its \<^verbatim>\<open>return\<close>.\<close>

definition tools_list :: "py_class \<Rightarrow> tool_entry list" where
  "tools_list cls = collect_tools (agent_name cls) (getmembers_isfunction cls) []"

definition tool_json :: "tool_entry \<Rightarrow> json" where
  "tool_json e =
     JObject [(''agent'', JString (agent e)), (''function'', JString (function_name e)),
              (''description'', JString (description e)), (''arguments'', JString (arguments e))]"

definition generate_tools_json_doc :: "py_class \<Rightarrow> string" where
  "generate_tools_json_doc cls = dumps_indent False 2 0 (JArray (map tool_json (tools_list cls)))"

subsection \<open>The class ContentTools\<close>

text \<open>
  What the class looks like depends on three things outside this repository, which are
  parameters of its description: the value of \<^verbatim>\<open>AgentType.CONTENT_PROCESSING\<close>; the
  decorator \<^verbatim>\<open>kernel_function\<close> of the Semantic Kernel library, which marks a function
  with \<^verbatim>\<open>__kernel_function__\<close> (the parameter says what the \<^verbatim>\<open>description\<close> attribute of
  that marker is, given the description passed to the decorator); and the interpreter,
  which decides what \<^verbatim>\<open>__doc__\<close> holds of a docstring and whether \<^verbatim>\<open>get_type_hints\<close>
  turns the hint of \<^verbatim>\<open>username: str = None\<close> into an optional type.
\<close>

record runtime =
  agent_type_value :: string
  marker_description :: "string \<Rightarrow> string option"
  docstring :: "string \<Rightarrow> string option"
  none_default_hint :: type_obj

definition str_type :: type_obj where
  "str_type = Type_Obj (Some ''str'') ''<class 'str'>''"

definition int_type :: type_obj where
  "int_type = Type_Obj (Some ''int'') ''<class 'int'>''"

definition kernel_tool :: "runtime \<Rightarrow> string \<Rightarrow> string \<Rightarrow> string \<Rightarrow> parameter list \<Rightarrow> string \<times> member" where
  "kernel_tool rt name decorator_description annotations ps =
     (name, \<lparr>kind = Function, kernel_marker = Some (marker_description rt decorator_description),
             doc = docstring rt name, annotations_str = annotations, parameters = ps\<rparr>)"

definition class_method :: "string \<Rightarrow> string \<times> member" where
  "class_method name =
     (name, \<lparr>kind = Bound_Method, kernel_marker = None, doc = None, annotations_str = [],
             parameters = []\<rparr>)"

definition class_attribute :: "string \<Rightarrow> string \<times> member" where
  "class_attribute name =
     (name, \<lparr>kind = Attribute, kernel_marker = None, doc = None, annotations_str = [],
             parameters = []\<rparr>)"

text \<open>
  The members in the order of their definition. The attributes inherited from
  \<^verbatim>\<open>object\<close> are left out: none of them is a function.
\<close>

definition ContentTools :: "runtime \<Rightarrow> py_class" where
  "ContentTools rt =
     \<lparr>agent_name = agent_type_value rt,
      members =
        [class_attribute ''agent_name'',
         kernel_tool rt ''extract_text_from_pdf'' ''Extract text content from a PDF document.''
           ''{'file_path': <class 'str'>, 'return': <class 'str'>}''
           [\<lparr>param_name = ''file_path'', hint = Some str_type\<rparr>],
         kernel_tool rt ''parse_sections''
           ''Parse a document into logical sections based on headings and structure.''
           ''{'text': <class 'str'>, 'min_section_length': <class 'int'>, 'return': <class 'str'>}''
           [\<lparr>param_name = ''text'', hint = Some str_type\<rparr>,
            \<lparr>param_name = ''min_section_length'', hint = Some int_type\<rparr>],
         kernel_tool rt ''summarize_text'' ''Summarize text content to a specified length.''
           ''{'text': <class 'str'>, 'max_length': <class 'int'>, 'return': <class 'str'>}''
           [\<lparr>param_name = ''text'', hint = Some str_type\<rparr>,
            \<lparr>param_name = ''max_length'', hint = Some int_type\<rparr>],
         kernel_tool rt ''get_documents_from_sharepoint''
           ''Connect to SharePoint and retrieve documents from a specified library''
           (''{'site_url': <class 'str'>, 'library_name': <class 'str'>, 'username': <class 'str'>, 'password': '' @
            ''<class 'str'>, 'return': <class 'str'>}'')
           [\<lparr>param_name = ''site_url'', hint = Some str_type\<rparr>,
            \<lparr>param_name = ''library_name'', hint = Some str_type\<rparr>,
            \<lparr>param_name = ''username'', hint = Some (none_default_hint rt)\<rparr>,
            \<lparr>param_name = ''password'', hint = Some (none_default_hint rt)\<rparr>],
         kernel_tool rt ''extract_tables_from_pdf''
           ''Extract tables from a PDF document as structured data''
           ''{'file_path': <class 'str'>, 'return': <class 'str'>}''
           [\<lparr>param_name = ''file_path'', hint = Some str_type\<rparr>],
         class_method ''get_all_kernel_functions'',
         class_method ''generate_tools_json_doc'']\<rparr>"

section \<open>Reading decimal numbers, and example inputs\<close>

text \<open>The number a string of decimal digits denotes, to say what \<^const>\<open>str_nat\<close> renders.\<close>

definition digit_value :: "char \<Rightarrow> nat" where
  "digit_value c = code c - 48"

definition decimal_value :: "string \<Rightarrow> nat" where
  "decimal_value s = foldl (\<lambda>acc c. 10 * acc + digit_value c) 0 s"

text \<open>A file system without any file.\<close>

definition missing_world :: pdf_world where
  "missing_world = \<lparr>path_exists = (\<lambda>p. False), fitz_open = (\<lambda>p. Inl ''no such file'')\<rparr>"

text \<open>
  A file system with the one file \<^verbatim>\<open>report.pdf\<close>, a document of two pages: the text
  of the first can be read, reading the second raises.
\<close>

definition broken_page_world :: pdf_world where
  "broken_page_world =
     \<lparr>path_exists = (\<lambda>p. p = ''report.pdf''),
      fitz_open = (\<lambda>p. Inr [Inr ''first page'', Inl ''cannot read page''])\<rparr>"

text \<open>
  The headings of a text in the order of the text: the stripped, non-empty lines that
  the heuristic takes for a heading.
\<close>

definition heading_lines :: "string \<Rightarrow> string list" where
  "heading_lines text = filter is_heading (filter (\<lambda>l. l \<noteq> []) (map strip (split_lines text)))"

text \<open>A line of 70 characters: 69 digits and a full stop.\<close>

definition digit_line :: string where
  "digit_line = replicate 69 CHR ''7'' @ ''.''"

text \<open>The text of the segmentation scenario: two headings, each with one long body line.\<close>

definition scenario_text :: string where
  "scenario_text =
     ''INTRO'' @ [newline] @
     ''Hello world, this is a body line that is long enough to count towards the minimum length threshold for sure.'' @
     [newline] @ ''SECTION TWO:'' @ [newline] @
     ''Another sufficiently long body line to pass the same minimum length threshold check here too.''"

text \<open>The argument descriptions of the entries that \<^const>\<open>tools_list\<close> holds for an operation.\<close>

definition tool_arguments :: "py_class \<Rightarrow> string \<Rightarrow> string list" where
  "tool_arguments cls name = map arguments (filter (\<lambda>e. function_name e = name) (tools_list cls))"

text \<open>
  A runtime as the test scripts set it up: the agent name of their mock, a marker without
  a description, and no docstrings.
\<close>

definition example_runtime :: runtime where
  "example_runtime =
     \<lparr>agent_type_value = ''Content_Processing_Agent'', marker_description = (\<lambda>d. None),
      docstring = (\<lambda>n. None), none_default_hint = str_type\<rparr>"

text \<open>
  A class in which the listing operation and the description operation are themselves
  marked static functions, beside one ordinary tool.
\<close>

definition marked_function :: "string \<Rightarrow> string \<times> member" where
  "marked_function name =
     (name, \<lparr>kind = Function, kernel_marker = Some None, doc = None, annotations_str = ''{}'',
             parameters = []\<rparr>)"

definition self_describing_class :: py_class where
  "self_describing_class =
     \<lparr>agent_name = ''Agent'',
      members = [marked_function ''summarize_text'', marked_function ''get_all_kernel_functions'',
                 marked_function ''generate_tools_json_doc'']\<rparr>"

section \<open>Properties\<close>

subsection \<open>Summarisation\<close>

lemma startswith_append: "startswith (p @ ys) p"
  by (simp add: startswith_def)

lemma contains_append: "contains (xs @ p @ ys) p"
proof (induction xs)
  case Nil
  show ?case
  proof (cases "p @ ys")
    case Nil
    then show ?thesis by simp
  next
    case (Cons c cs)
    have "startswith (p @ ys) p" by (rule startswith_append)
    with Cons show ?thesis by simp
  qed
next
  case (Cons x xs)
  then show ?case by simp
qed

lemma str_nat_500: "str_nat 500 = ''500''"
  by code_simp

lemma str_int_10: "str_int 10 = ''10''"
  by code_simp

text \<open>
  Claim C5. \<^verbatim>\<open>summarize_text(text, max_length)\<close> returns the text unchanged when its length
  is at most \<^verbatim>\<open>max_length\<close>; otherwise it returns the fixed placeholder sentence, which
  contains the decimal rendering of the length of the text and of \<^verbatim>\<open>max_length\<close>. A text
  of 5 characters is returned unchanged for \<^verbatim>\<open>max_length = 10\<close>, and a text of 500
  characters gives the placeholder with \<^verbatim>\<open>500\<close> and \<^verbatim>\<open>10\<close> in it.
\<close>

theorem summarize_text_contract:
  "(int (length text) \<le> max_length \<longrightarrow> summarize_text text max_length = text) \<and>
   (max_length < int (length text) \<longrightarrow>
      summarize_text text max_length =
        ''This is a placeholder for text summarization. In a real implementation, this would call the Azure OpenAI service to summarize the input text which is '' @
        str_nat (length text) @ '' characters long to a maximum of '' @ str_int max_length @
        '' characters.'' \<and>
      contains (summarize_text text max_length) (str_nat (length text)) \<and>
      contains (summarize_text text max_length) (str_int max_length)) \<and>
   (length text = 5 \<longrightarrow> summarize_text text 10 = text) \<and>
   (length text = 500 \<longrightarrow>
      summarize_text text 10 =
        ''This is a placeholder for text summarization. In a real implementation, this would call the Azure OpenAI service to summarize the input text which is 500 characters long to a maximum of 10 characters.'' \<and>
      contains (summarize_text text 10) ''500'' \<and> contains (summarize_text text 10) ''10'')"
proof -
  let ?pre = "''This is a placeholder for text summarization. In a real implementation, this would call the Azure OpenAI service to summarize the input text which is ''"
  let ?mid = "'' characters long to a maximum of ''"
  let ?post = "'' characters.''"
  have long: "summarize_text text k = ?pre @ str_nat (length text) @ ?mid @ str_int k @ ?post"
    if "k < int (length text)" for k
    using that by (simp add: summarize_text_def)
  have c1: "contains (?pre @ n @ ?mid @ k @ ?post) n" for n k
    by (rule contains_append)
  have c2: "contains (?pre @ n @ ?mid @ k @ ?post) k" for n k
    using contains_append [of "?pre @ n @ ?mid" k ?post] by simp
  have short: "int (length text) \<le> max_length \<longrightarrow> summarize_text text max_length = text"
    by (simp add: summarize_text_def)
  have general: "max_length < int (length text) \<longrightarrow>
      summarize_text text max_length = ?pre @ str_nat (length text) @ ?mid @ str_int max_length @ ?post \<and>
      contains (summarize_text text max_length) (str_nat (length text)) \<and>
      contains (summarize_text text max_length) (str_int max_length)"
    using long [of max_length] c1 c2 by simp
  have five: "length text = 5 \<longrightarrow> summarize_text text 10 = text"
    by (simp add: summarize_text_def)
  have five_hundred: "length text = 500 \<longrightarrow>
      summarize_text text 10 =
        ''This is a placeholder for text summarization. In a real implementation, this would call the Azure OpenAI service to summarize the input text which is 500 characters long to a maximum of 10 characters.'' \<and>
      contains (summarize_text text 10) ''500'' \<and> contains (summarize_text text 10) ''10''"
  proof
    assume len: "length text = 500"
    then have eq: "summarize_text text 10 = ?pre @ ''500'' @ ?mid @ ''10'' @ ?post"
      using long [of 10] by (simp add: str_nat_500 str_int_10)
    then have lit: "summarize_text text 10 =
        ''This is a placeholder for text summarization. In a real implementation, this would call the Azure OpenAI service to summarize the input text which is 500 characters long to a maximum of 10 characters.''"
      by simp
    have k1: "contains (summarize_text text 10) ''500''"
      unfolding eq by (rule c1)
    have k2: "contains (summarize_text text 10) ''10''"
      unfolding eq by (rule c2)
    from lit k1 k2 show "summarize_text text 10 =
        ''This is a placeholder for text summarization. In a real implementation, this would call the Azure OpenAI service to summarize the input text which is 500 characters long to a maximum of 10 characters.'' \<and>
      contains (summarize_text text 10) ''500'' \<and> contains (summarize_text text 10) ''10''"
      by (intro conjI)
  qed
  from short general five five_hundred show ?thesis by (intro conjI)
qed

text \<open>The two scenarios, on the text \<^verbatim>\<open>hello\<close> and on 500 times the letter x.\<close>

theorem summarize_text_contract_witness:
  "summarize_text ''hello'' 10 = ''hello'' \<and>
   summarize_text (replicate 500 CHR ''x'') 10 =
     ''This is a placeholder for text summarization. In a real implementation, this would call the Azure OpenAI service to summarize the input text which is 500 characters long to a maximum of 10 characters.''"
proof -
  have a: "length ''hello'' = 5" by simp
  have b: "length (replicate 500 CHR ''x'') = 500" by simp
  from a summarize_text_contract [of "''hello''" 10]
  have "summarize_text ''hello'' 10 = ''hello''" by blast
  moreover from b summarize_text_contract [of "replicate 500 CHR ''x''" 10]
  have "summarize_text (replicate 500 CHR ''x'') 10 =
     ''This is a placeholder for text summarization. In a real implementation, this would call the Azure OpenAI service to summarize the input text which is 500 characters long to a maximum of 10 characters.''"
    by blast
  ultimately show ?thesis by (rule conjI)
qed

text \<open>\<^const>\<open>str_nat\<close> is the decimal rendering: read back, the digits give the number.\<close>

lemma digit_value_digit_char: "d < 10 \<Longrightarrow> digit_value (digit_char d) = d"
  by (simp add: digit_value_def digit_char_def code_def)

lemma str_nat_decimal: "decimal_value (str_nat n) = n"
proof (induction n rule: str_nat.induct)
  case (1 n)
  show ?case
  proof (cases "n < 10")
    case True
    then show ?thesis
      by (subst str_nat.simps) (simp add: decimal_value_def digit_value_digit_char)
  next
    case False
    with 1 have ih: "decimal_value (str_nat (n div 10)) = n div 10" by simp
    have "decimal_value (str_nat n) = 10 * decimal_value (str_nat (n div 10)) + n mod 10"
      using False by (subst str_nat.simps) (simp add: decimal_value_def digit_value_digit_char)
    with ih show ?thesis by simp
  qed
qed

subsection \<open>Text extraction and the stand-ins\<close>

text \<open>
  Claim C6. For a path that does not resolve to an existing file,
  \<^verbatim>\<open>extract_text_from_pdf\<close> returns the message \<^verbatim>\<open>Error: File not found at\<close> followed by
  the path, and raises nothing: the body of the \<^verbatim>\<open>try\<close> block returns that message
  itself (\<open>Inr\<close>), the handler does not run and nothing is logged.
\<close>

theorem extract_missing_path:
  "\<not> path_exists w file_path \<Longrightarrow>
     extract_body w file_path = (Inr (''Error: File not found at '' @ file_path), Not_Opened) \<and>
     returned (extract_text_from_pdf w file_path) = ''Error: File not found at '' @ file_path \<and>
     logged (extract_text_from_pdf w file_path) = []"
  by (simp add: extract_text_from_pdf_def extract_body_def)

text \<open>The path \<^verbatim>\<open>missing.pdf\<close> on a file system without any file.\<close>

theorem extract_missing_path_witness:
  "\<not> path_exists missing_world ''missing.pdf'' \<and>
   returned (extract_text_from_pdf missing_world ''missing.pdf'') =
     ''Error: File not found at missing.pdf''"
proof -
  have h: "\<not> path_exists missing_world ''missing.pdf''"
    by (simp add: missing_world_def)
  from extract_missing_path [OF h] h show ?thesis by simp
qed

text \<open>
  Claim C1 says that the document handle is closed before \<^verbatim>\<open>extract_text_from_pdf\<close>
  returns, on the success path and on every failure path. The code closes it on the
  success path only: \<^verbatim>\<open>doc.close()\<close> follows the loop over the pages, and an exception
  raised in the loop goes to the handler past it. On \<^verbatim>\<open>report.pdf\<close>, whose second page
  cannot be read, the function returns the error message and the handle is still open.
\<close>

theorem extract_error_leaves_handle_open:
  "path_exists broken_page_world ''report.pdf'' \<and>
   returned (extract_text_from_pdf broken_page_world ''report.pdf'') =
     ''Error extracting text from PDF: cannot read page'' \<and>
   handle (extract_text_from_pdf broken_page_world ''report.pdf'') = Opened"
  by (simp add: extract_text_from_pdf_def extract_body_def broken_page_world_def)

text \<open>
  The same holds whenever the file exists, the document opens and reading a page raises;
  the success path does close the handle.
\<close>

lemma extract_page_error_leaves_open:
  "path_exists w file_path \<Longrightarrow> fitz_open w file_path = Inr pages \<Longrightarrow> read_pages pages [] = Inl e \<Longrightarrow>
     extract_text_from_pdf w file_path =
       \<lparr>returned = ''Error extracting text from PDF: '' @ e, handle = Opened,
        logged = [''Error extracting text from PDF: '' @ e]\<rparr>"
  by (simp add: extract_text_from_pdf_def extract_body_def)

lemma extract_success_closes:
  "path_exists w file_path \<Longrightarrow> fitz_open w file_path = Inr pages \<Longrightarrow> read_pages pages [] = Inr text \<Longrightarrow>
     extract_text_from_pdf w file_path = \<lparr>returned = text, handle = Closed, logged = []\<rparr>"
  by (simp add: extract_text_from_pdf_def extract_body_def)

text \<open>
  Claim C9. The result of \<^verbatim>\<open>get_documents_from_sharepoint\<close> does not depend on the
  username and the password: two calls with the same site and library and any
  credentials, given or absent, return the same string, and that string is the fixed
  listing of three documents with the site and the library echoed back (as JSON
  strings).
\<close>

theorem sharepoint_ignores_credentials:
  \<open>get_documents_from_sharepoint site_url library_name username password =
     get_documents_from_sharepoint site_url library_name username' password' \<and>
   get_documents_from_sharepoint site_url library_name username password =
     ''{"site": '' @ encode_string False site_url @ '', "library": '' @
     encode_string False library_name @
     '', "documents": [{"name": "Product_Specifications.pdf", "size": "1.2 MB", "modified": "2025-07-30"}, {"name": "Technical_Manual.docx", "size": "3.5 MB", "modified": "2025-08-01"}, {"name": "Project_Plan.xlsx", "size": "0.8 MB", "modified": "2025-08-02"}]}''\<close>
  by (simp add: get_documents_from_sharepoint_def example_docs_def encode_string_def
      escape_char_def dquote_def backslash_def code_def)

text \<open>The call of the test script, with and without credentials.\<close>

theorem sharepoint_ignores_credentials_witness:
  \<open>get_documents_from_sharepoint ''https://contoso.sharepoint.com/sites/documents''
     ''Technical Documentation'' (Some ''alice'') (Some ''secret'') =
   get_documents_from_sharepoint ''https://contoso.sharepoint.com/sites/documents''
     ''Technical Documentation'' None None \<and>
   get_documents_from_sharepoint ''https://contoso.sharepoint.com/sites/documents''
     ''Technical Documentation'' None None =
     ''{"site": "https://contoso.sharepoint.com/sites/documents", "library": "Technical Documentation", "documents": [{"name": "Product_Specifications.pdf", "size": "1.2 MB", "modified": "2025-07-30"}, {"name": "Technical_Manual.docx", "size": "3.5 MB", "modified": "2025-08-01"}, {"name": "Project_Plan.xlsx", "size": "0.8 MB", "modified": "2025-08-02"}]}''\<close>
proof -
  note t = sharepoint_ignores_credentials
    [of "''https://contoso.sharepoint.com/sites/documents''" "''Technical Documentation''"
      "Some ''alice''" "Some ''secret''" None None]
  from t have a: "get_documents_from_sharepoint ''https://contoso.sharepoint.com/sites/documents''
     ''Technical Documentation'' (Some ''alice'') (Some ''secret'') =
   get_documents_from_sharepoint ''https://contoso.sharepoint.com/sites/documents''
     ''Technical Documentation'' None None"
    by (rule conjunct1)
  from t [THEN conjunct2] show ?thesis
    unfolding a by (simp add: encode_string_def escape_char_def dquote_def backslash_def code_def)
qed

subsection \<open>Section segmentation\<close>

text \<open>
  \<^const>\<open>isupper\<close> holds of the strings with an uppercase character and without a
  lowercase one.
\<close>

lemma isupper_scan_iff:
  "isupper_scan s cased \<longleftrightarrow> \<not> list_ex is_lower_char s \<and> (cased \<or> list_ex is_upper_char s)"
  by (induction s arbitrary: cased) auto

lemma isupper_iff: "isupper s \<longleftrightarrow> list_ex is_upper_char s \<and> \<not> list_ex is_lower_char s"
  unfolding isupper_def isupper_scan_iff by auto

text \<open>
  Claim C3, as amended. The claim takes a line without alphabetic characters for
  upper-case, and so for a heading whenever it is shorter than 100 characters. Python's
  \<^verbatim>\<open>isupper\<close> asks for at least one cased character: a line without cased characters
  never satisfies the upper-case rule, and it is a heading exactly when one of the other
  three rules makes it one. The statement speaks of cased characters, not of alphabetic
  ones: below U+0100 the two are the same characters, but above it Unicode has uppercase
  characters that are not alphabetic (the Roman numeral U+2167), and a line of those is
  upper-case.
\<close>

theorem uncased_line_not_upper:
  "\<not> list_ex is_cased line \<Longrightarrow>
     \<not> isupper line \<and>
     (is_heading line \<longleftrightarrow>
        (length line < 80 \<and> endswith line '':'') \<or>
        list_ex (startswith line) [''#'', ''Chapter'', ''Section''] \<or>
        (length line < 60 \<and> \<not> endswith line ''.'' \<and> \<not> endswith line '',''))"
proof -
  assume a: "\<not> list_ex is_cased line"
  then have "\<not> list_ex is_upper_char line"
    by (auto simp: list_ex_iff is_cased_def)
  then have u: "\<not> isupper line"
    by (simp add: isupper_iff)
  then show ?thesis
    by (simp add: is_heading_def)
qed

text \<open>
  The line \<^verbatim>\<open>12345\<close> has no cased character; it is a heading, by the rule for short
  lines.
\<close>

theorem uncased_line_not_upper_witness:
  "\<not> list_ex is_cased ''12345'' \<and> \<not> isupper ''12345'' \<and> is_heading ''12345''"
proof -
  have h: "\<not> list_ex is_cased ''12345''" by code_simp
  have e: "\<not> endswith ''12345'' ''.'' \<and> \<not> endswith ''12345'' '',''" by code_simp
  from uncased_line_not_upper [OF h] h e show ?thesis by simp
qed

text \<open>
  The example of claim C3 itself: the stripped line of 69 digits and a full stop has 70
  characters, all of them digits but the full stop, so that none is alphabetic or cased,
  and it is not a heading.
\<close>

theorem digit_line_is_body:
  "digit_line \<noteq> [] \<and> strip digit_line = digit_line \<and> length digit_line = 70 \<and>
   list_all (\<lambda>c. c \<in> set ''0123456789.'') digit_line \<and>
   \<not> list_ex is_cased digit_line \<and> \<not> isupper digit_line \<and> \<not> is_heading digit_line"
  by code_simp

text \<open>
  Claim C2 says that a text shorter than \<^verbatim>\<open>min_section_length\<close> gives no section. The
  content of a section holds a newline after every body line, so it can be one character
  longer than the text: \<^verbatim>\<open>a.\<close> has two characters and gives a section for the
  minimum 3.
\<close>

theorem short_text_one_section:
  \<open>int (length ''a.'') < 3 \<and>
   parse_sections ''a.'' 3 = ''[{"title": "Introduction", "content": "a.'' @ [backslash] @ ''n"}]''\<close>
  by code_simp

text \<open>
  Stripping does not lengthen a line, and the lines of a text, each counted with one
  newline, have one character more than the text.
\<close>

lemma length_rstrip: "length (rstrip s) \<le> length s"
  unfolding rstrip_def by (metis length_dropWhile_le length_rev)

lemma length_strip: "length (strip s) \<le> length s"
proof -
  have "length (strip s) \<le> length (lstrip s)"
    unfolding strip_def by (rule length_rstrip)
  also have "\<dots> \<le> length s"
    unfolding lstrip_def by (rule length_dropWhile_le)
  finally show ?thesis .
qed

lemma split_acc_total:
  "sum_list (map (\<lambda>l. length l + 1) (split_acc sep s piece)) = length piece + length s + 1"
  by (induction s arbitrary: piece) auto

text \<open>
  While the content of the current section and the lines still to come stay below the
  minimum, the loop appends nothing.
\<close>

lemma scan_lines_short:
  "int (length (content cur) + sum_list (map (\<lambda>l. length l + 1) ls)) < m \<Longrightarrow>
     \<exists>cur'. scan_lines m ls ([], cur) = ([], cur') \<and> int (length (content cur')) < m"
proof (induction ls arbitrary: cur)
  case Nil
  then show ?case by simp
next
  case (Cons raw rest)
  let ?line = "strip raw"
  have le: "length ?line \<le> length raw" by (rule length_strip)
  show ?case
  proof (cases "?line = []")
    case True
    from Cons.prems have "int (length (content cur) + sum_list (map (\<lambda>l. length l + 1) rest)) < m"
      by simp
    from Cons.IH [OF this] True show ?thesis by simp
  next
    case False
    show ?thesis
    proof (cases "is_heading ?line")
      case True
      let ?new = "\<lparr>title = ?line, content = []\<rparr>"
      from Cons.prems have short: "\<not> long_enough m cur"
        by (simp add: long_enough_def)
      from Cons.prems have "int (length (content ?new) + sum_list (map (\<lambda>l. length l + 1) rest)) < m"
        by simp
      from Cons.IH [OF this] False True short show ?thesis by simp
    next
      case h: False
      let ?new = "cur\<lparr>content := content cur @ ?line @ [newline]\<rparr>"
      from Cons.prems le
      have "int (length (content ?new) + sum_list (map (\<lambda>l. length l + 1) rest)) < m"
        by simp
      from Cons.IH [OF this] False h show ?thesis by simp
    qed
  qed
qed

text \<open>
  Claim C2, as amended. When the length of the text plus one is below
  \<^verbatim>\<open>min_section_length\<close>, \<^verbatim>\<open>parse_sections\<close> returns the JSON encoding of the empty
  list.
\<close>

theorem short_text_no_section:
  "int (length text) + 1 < min_section_length \<Longrightarrow>
     parse_sections_list text min_section_length = [] \<and>
     parse_sections text min_section_length = ''[]''"
proof -
  assume a: "int (length text) + 1 < min_section_length"
  have "sum_list (map (\<lambda>l. length l + 1) (split_lines text)) = length text + 1"
    using split_acc_total [of newline "text" "[]"] by (simp add: split_lines_def)
  with a have "int (length (content introduction) +
      sum_list (map (\<lambda>l. length l + 1) (split_lines text))) < min_section_length"
    by (simp add: introduction_def)
  from scan_lines_short [OF this] obtain cur' where
    s: "scan_lines min_section_length (split_lines text) ([], introduction) = ([], cur')" and
    c: "int (length (content cur')) < min_section_length"
    by blast
  from s c have l: "parse_sections_list text min_section_length = []"
    by (simp add: parse_sections_list_def long_enough_def)
  then show ?thesis
    by (simp add: parse_sections_def)
qed

text \<open>The text \<^verbatim>\<open>a.\<close> with the minimum 4.\<close>

theorem short_text_no_section_witness:
  "int (length ''a.'') + 1 < 4 \<and> parse_sections ''a.'' 4 = ''[]''"
proof -
  have h: "int (length ''a.'') + 1 < 4" by simp
  from short_text_no_section [OF h] h show ?thesis by simp
qed

text \<open>
  With the minimum 0 no section is dropped. The loop with a minimum \<open>m\<close> builds the list
  that the loop with the minimum 0 builds, without the sections that are too short.
\<close>

lemma long_enough_zero: "long_enough 0 s"
  by (simp add: long_enough_def)

lemma scan_lines_filter:
  "scan_lines m ls (filter (long_enough m) done, cur) =
     (case scan_lines 0 ls (done, cur) of
        (done', cur') \<Rightarrow> (filter (long_enough m) done', cur'))"
proof (induction ls arbitrary: "done" cur)
  case Nil
  show ?case by simp
next
  case (Cons raw rest)
  let ?line = "strip raw"
  let ?new = "\<lparr>title = ?line, content = []\<rparr>"
  show ?case
  proof (cases "?line \<noteq> [] \<and> is_heading ?line")
    case True
    have "scan_lines m (raw # rest) (filter (long_enough m) done, cur) =
        scan_lines m rest (filter (long_enough m) (done @ [cur]), ?new)"
      using True by simp
    also have "\<dots> = (case scan_lines 0 rest (done @ [cur], ?new) of
        (done', cur') \<Rightarrow> (filter (long_enough m) done', cur'))"
      by (rule Cons.IH)
    also have "scan_lines 0 rest (done @ [cur], ?new) = scan_lines 0 (raw # rest) (done, cur)"
      using True by (simp add: long_enough_zero)
    finally show ?thesis .
  next
    case False
    then show ?thesis
      using Cons.IH [of "done" cur]
        Cons.IH [of "done" "cur\<lparr>content := content cur @ ?line @ [newline]\<rparr>"]
      by (auto simp: Let_def)
  qed
qed

lemma parse_sections_list_filter:
  "parse_sections_list text m = filter (long_enough m) (parse_sections_list text 0)"
proof -
  obtain done' cur' where s: "scan_lines 0 (split_lines text) ([], introduction) = (done', cur')"
    by (cases "scan_lines 0 (split_lines text) ([], introduction)")
  from scan_lines_filter [of m "split_lines text" "[]" introduction] s
  have "scan_lines m (split_lines text) ([], introduction) = (filter (long_enough m) done', cur')"
    by simp
  with s show ?thesis
    by (simp add: parse_sections_list_def long_enough_zero)
qed

text \<open>With the minimum 0, every heading opens a section, in the order of the lines.\<close>

lemma scan_lines_titles:
  "scan_lines 0 ls (done, cur) = (done', cur') \<Longrightarrow>
     map title done' @ [title cur'] =
       map title done @ [title cur] @
       filter is_heading (filter (\<lambda>l. l \<noteq> []) (map strip ls))"
proof (induction ls arbitrary: "done" cur)
  case Nil
  then show ?case by simp
next
  case (Cons raw rest)
  let ?line = "strip raw"
  show ?case
  proof (cases "?line \<noteq> [] \<and> is_heading ?line")
    case True
    with Cons.prems
    have "scan_lines 0 rest (done @ [cur], \<lparr>title = ?line, content = []\<rparr>) = (done', cur')"
      by (simp add: long_enough_zero)
    from Cons.IH [OF this] True show ?thesis by simp
  next
    case False
    show ?thesis
    proof (cases "?line = []")
      case True
      with Cons.prems have "scan_lines 0 rest (done, cur) = (done', cur')" by simp
      from Cons.IH [OF this] True show ?thesis by simp
    next
      case ne: False
      with False have nh: "\<not> is_heading ?line" by simp
      with ne Cons.prems
      have "scan_lines 0 rest (done, cur\<lparr>content := content cur @ ?line @ [newline]\<rparr>) = (done', cur')"
        by simp
      from Cons.IH [OF this] ne nh show ?thesis by simp
    qed
  qed
qed

lemma parse_sections_list_titles:
  "map title (parse_sections_list text 0) = ''Introduction'' # heading_lines text"
proof -
  obtain done' cur' where s: "scan_lines 0 (split_lines text) ([], introduction) = (done', cur')"
    by (cases "scan_lines 0 (split_lines text) ([], introduction)")
  from scan_lines_titles [OF s] have "map title done' @ [title cur'] =
      ''Introduction'' # heading_lines text"
    by (simp add: introduction_def heading_lines_def)
  with s show ?thesis
    by (simp add: parse_sections_list_def long_enough_zero)
qed

text \<open>
  Claim C4. For every text and every minimum, the content of every section that
  \<^verbatim>\<open>parse_sections\<close> emits is at least \<^verbatim>\<open>min_section_length\<close> long, and the sections
  come in the order in which their headings appear in the text: the emitted list is the
  list of all sections of the text (\<^verbatim>\<open>Introduction\<close>, then one per heading line, in
  the order of the lines) with the short ones left out, none moved.
\<close>

theorem sections_long_enough_in_order:
  "(\<forall>s \<in> set (parse_sections_list text min_section_length).
      min_section_length \<le> int (length (content s))) \<and>
   parse_sections_list text min_section_length =
     filter (long_enough min_section_length) (parse_sections_list text 0) \<and>
   map title (parse_sections_list text 0) = ''Introduction'' # heading_lines text \<and>
   subseq (map title (parse_sections_list text min_section_length))
     (''Introduction'' # heading_lines text)"
proof -
  let ?m = min_section_length
  have f: "parse_sections_list text ?m = filter (long_enough ?m) (parse_sections_list text 0)"
    by (rule parse_sections_list_filter)
  have t: "map title (parse_sections_list text 0) = ''Introduction'' # heading_lines text"
    by (rule parse_sections_list_titles)
  have a: "\<forall>s \<in> set (parse_sections_list text ?m). ?m \<le> int (length (content s))"
    by (subst f) (simp add: long_enough_def)
  have "subseq (map title (filter (long_enough ?m) (parse_sections_list text 0)))
      (map title (parse_sections_list text 0))"
    by (intro subseq_map subseq_filter_left)
  then have s: "subseq (map title (parse_sections_list text ?m))
      (''Introduction'' # heading_lines text)"
    by (simp only: f [symmetric] t)
  from a f t s show ?thesis by (intro conjI)
qed

text \<open>
  The segmentation scenario with the minimum 50: two sections, \<^verbatim>\<open>INTRO\<close> and
  \<^verbatim>\<open>SECTION TWO:\<close>, each with its body line; the empty introduction is left out.
\<close>

theorem sections_long_enough_in_order_witness:
  "list_all (\<lambda>s. 50 \<le> int (length (content s))) (parse_sections_list scenario_text 50) \<and>
   parse_sections_list scenario_text 50 =
     [\<lparr>title = ''INTRO'',
       content = ''Hello world, this is a body line that is long enough to count towards the minimum length threshold for sure.'' @ [newline]\<rparr>,
      \<lparr>title = ''SECTION TWO:'',
       content = ''Another sufficiently long body line to pass the same minimum length threshold check here too.'' @ [newline]\<rparr>] \<and>
   ''Introduction'' # heading_lines scenario_text = [''Introduction'', ''INTRO'', ''SECTION TWO:'']"
proof -
  from sections_long_enough_in_order [of scenario_text 50]
  have "\<forall>s \<in> set (parse_sections_list scenario_text 50). 50 \<le> int (length (content s))"
    by (rule conjunct1)
  then have a: "list_all (\<lambda>s. 50 \<le> int (length (content s))) (parse_sections_list scenario_text 50)"
    by (simp add: list_all_iff)
  have b: "parse_sections_list scenario_text 50 =
     [\<lparr>title = ''INTRO'',
       content = ''Hello world, this is a body line that is long enough to count towards the minimum length threshold for sure.'' @ [newline]\<rparr>,
      \<lparr>title = ''SECTION TWO:'',
       content = ''Another sufficiently long body line to pass the same minimum length threshold check here too.'' @ [newline]\<rparr>]"
    by code_simp
  have c: "''Introduction'' # heading_lines scenario_text = [''Introduction'', ''INTRO'', ''SECTION TWO:'']"
    by code_simp
  from a b c show ?thesis by (intro conjI)
qed

subsection \<open>Capability registry\<close>

text \<open>
  The loop of \<^verbatim>\<open>get_all_kernel_functions\<close> never stores its own name, and the names of
  the entries of \<^verbatim>\<open>generate_tools_json_doc\<close> are those of the members it does not skip,
  in the order of \<^verbatim>\<open>inspect.getmembers\<close>.
\<close>

lemma collect_kernel_functions_skips_itself:
  "''get_all_kernel_functions'' \<notin> fst ` set acc \<Longrightarrow>
     ''get_all_kernel_functions'' \<notin> fst ` set (collect_kernel_functions ms acc)"
proof (induction ms arbitrary: acc)
  case Nil
  then show ?case by simp
next
  case (Cons nm rest)
  obtain name mem where nm: "nm = (name, mem)" by (cases nm)
  show ?case
  proof (cases "startswith name ''_'' \<or> name = ''get_all_kernel_functions''")
    case True
    with nm Cons show ?thesis by simp
  next
    case False
    then have "''get_all_kernel_functions'' \<notin> fst ` set (AList.update name mem acc)"
      using Cons.prems by (auto simp: dom_update)
    from Cons.IH [OF this] Cons.IH [OF Cons.prems] nm False show ?thesis by simp
  qed
qed

lemma collect_tools_names:
  "map function_name (collect_tools ag ms acc) =
     map function_name acc @
     map fst (filter (\<lambda>nm. \<not> (startswith (fst nm) ''_'' \<or> fst nm = ''generate_tools_json_doc'') \<and>
                           kernel_marker (snd nm) \<noteq> None) ms)"
proof (induction ms arbitrary: acc)
  case Nil
  show ?case by simp
next
  case (Cons nm rest)
  obtain name mem where nm: "nm = (name, mem)" by (cases nm)
  show ?case
    unfolding nm using Cons.IH by (simp del: not_None_eq)
qed

lemma tools_list_names:
  "map function_name (tools_list cls) =
     map fst (filter (\<lambda>nm. \<not> (startswith (fst nm) ''_'' \<or> fst nm = ''generate_tools_json_doc'') \<and>
                           kernel_marker (snd nm) \<noteq> None) (getmembers_isfunction cls))"
  by (simp add: tools_list_def collect_tools_names del: not_None_eq)

lemma getmembers_sorted: "sorted (map fst (getmembers_isfunction cls))"
  by (simp add: getmembers_isfunction_def)

text \<open>
  Claim C8. For every class, \<^verbatim>\<open>get_all_kernel_functions\<close> is not a key of the dictionary
  that \<^verbatim>\<open>get_all_kernel_functions\<close> returns, and \<^verbatim>\<open>generate_tools_json_doc\<close> is not the
  function of an entry of the document that \<^verbatim>\<open>generate_tools_json_doc\<close> generates, the
  JSON encoding of \<^const>\<open>tools_list\<close>.
\<close>

theorem registry_excludes_itself:
  "''get_all_kernel_functions'' \<notin> fst ` set (get_all_kernel_functions cls) \<and>
   ''generate_tools_json_doc'' \<notin> set (map function_name (tools_list cls)) \<and>
   generate_tools_json_doc cls = dumps_indent False 2 0 (JArray (map tool_json (tools_list cls)))"
proof -
  have a: "''get_all_kernel_functions'' \<notin> fst ` set (get_all_kernel_functions cls)"
    unfolding get_all_kernel_functions_def
    by (rule collect_kernel_functions_skips_itself) simp
  have b: "''generate_tools_json_doc'' \<notin> set (map function_name (tools_list cls))"
    by (subst tools_list_names) (auto simp del: not_None_eq)
  have c: "generate_tools_json_doc cls = dumps_indent False 2 0 (JArray (map tool_json (tools_list cls)))"
    by (simp add: generate_tools_json_doc_def)
  from a b c show ?thesis by (intro conjI)
qed

text \<open>
  A class whose two operations are marked functions themselves: each is left out of
  its own result, and listed in the result of the other.
\<close>

theorem registry_excludes_itself_witness:
  "''get_all_kernel_functions'' \<notin> fst ` set (get_all_kernel_functions self_describing_class) \<and>
   ''generate_tools_json_doc'' \<notin> set (map function_name (tools_list self_describing_class)) \<and>
   map fst (get_all_kernel_functions self_describing_class) =
     [''generate_tools_json_doc'', ''summarize_text''] \<and>
   map function_name (tools_list self_describing_class) =
     [''get_all_kernel_functions'', ''summarize_text'']"
proof -
  note t = registry_excludes_itself [of self_describing_class]
  have c: "map fst (get_all_kernel_functions self_describing_class) =
     [''generate_tools_json_doc'', ''summarize_text'']"
    by code_simp
  have d: "map function_name (tools_list self_describing_class) =
     [''get_all_kernel_functions'', ''summarize_text'']"
    by code_simp
  from t [THEN conjunct1] t [THEN conjunct2, THEN conjunct1] c d show ?thesis by (intro conjI)
qed

text \<open>
  Claim C10. The entries of \<^verbatim>\<open>generate_tools_json_doc\<close> are ordered by function name,
  for every class. For \<^verbatim>\<open>ContentTools\<close> the order is \<^verbatim>\<open>extract_tables_from_pdf\<close>,
  \<^verbatim>\<open>extract_text_from_pdf\<close>, \<^verbatim>\<open>get_documents_from_sharepoint\<close>, \<^verbatim>\<open>parse_sections\<close>,
  \<^verbatim>\<open>summarize_text\<close>, which is not the order in which the class declares them.
\<close>

theorem tools_listed_by_name:
  "sorted (map function_name (tools_list cls)) \<and>
   map function_name (tools_list (ContentTools rt)) =
     [''extract_tables_from_pdf'', ''extract_text_from_pdf'', ''get_documents_from_sharepoint'',
      ''parse_sections'', ''summarize_text''] \<and>
   map fst (filter (\<lambda>nm. kind (snd nm) = Function) (members (ContentTools rt))) =
     [''extract_text_from_pdf'', ''parse_sections'', ''summarize_text'',
      ''get_documents_from_sharepoint'', ''extract_tables_from_pdf'']"
proof -
  have a: "sorted (map function_name (tools_list cls))"
    unfolding tools_list_names by (rule sorted_filter) (rule getmembers_sorted)
  have b: "map function_name (tools_list (ContentTools rt)) =
     [''extract_tables_from_pdf'', ''extract_text_from_pdf'', ''get_documents_from_sharepoint'',
      ''parse_sections'', ''summarize_text'']"
    by code_simp
  have c: "map fst (filter (\<lambda>nm. kind (snd nm) = Function) (members (ContentTools rt))) =
     [''extract_text_from_pdf'', ''parse_sections'', ''summarize_text'',
      ''get_documents_from_sharepoint'', ''extract_tables_from_pdf'']"
    by (simp add: ContentTools_def kernel_tool_def class_method_def class_attribute_def)
  from a b c show ?thesis by (intro conjI)
qed

text \<open>The listing of \<^verbatim>\<open>ContentTools\<close> under the runtime of the test scripts.\<close>

theorem tools_listed_by_name_witness:
  "sorted (map function_name (tools_list (ContentTools example_runtime))) \<and>
   map function_name (tools_list (ContentTools example_runtime)) =
     [''extract_tables_from_pdf'', ''extract_text_from_pdf'', ''get_documents_from_sharepoint'',
      ''parse_sections'', ''summarize_text'']"
  using tools_listed_by_name [of "ContentTools example_runtime" example_runtime]
  by (intro conjI) (rule conjunct1, assumption, rule conjunct2 [THEN conjunct1], assumption)

text \<open>The argument descriptions of the five tools of \<^verbatim>\<open>ContentTools\<close>.\<close>

lemma tool_arguments_lookup:
  "tool_arguments cls name =
     map snd (filter (\<lambda>p. fst p = name)
       (map (\<lambda>e. (function_name e, arguments e)) (tools_list cls)))"
  unfolding tool_arguments_def by (induction "tools_list cls") (auto simp: filter_map comp_def)

lemma content_tools_arguments:
  "map (\<lambda>e. (function_name e, arguments e)) (tools_list (ContentTools rt)) =
     [(''extract_tables_from_pdf'',
       ''{'file_path': {'description': 'file_path', 'title': 'File Path', 'type': 'str'}}''),
      (''extract_text_from_pdf'',
       ''{'file_path': {'description': 'file_path', 'title': 'File Path', 'type': 'str'}}''),
      (''get_documents_from_sharepoint'',
       arguments_str [\<lparr>param_name = ''site_url'', hint = Some str_type\<rparr>,
                      \<lparr>param_name = ''library_name'', hint = Some str_type\<rparr>,
                      \<lparr>param_name = ''username'', hint = Some (none_default_hint rt)\<rparr>,
                      \<lparr>param_name = ''password'', hint = Some (none_default_hint rt)\<rparr>]),
      (''parse_sections'',
       ''{'text': {'description': 'text', 'title': 'Text', 'type': 'str'}, 'min_section_length': {'description': 'min_section_length', 'title': 'Min Section Length', 'type': 'int'}}''),
      (''summarize_text'',
       ''{'text': {'description': 'text', 'title': 'Text', 'type': 'str'}, 'max_length': {'description': 'max_length', 'title': 'Max Length', 'type': 'int'}}'')]"
  by code_simp


text \<open>
  Claim C7 gives \<^verbatim>\<open>parse_sections\<close> the parameters \<^verbatim>\<open>file_path\<close> and
  \<^verbatim>\<open>min_section_length\<close>. Its parameters are \<^verbatim>\<open>text\<close> and \<^verbatim>\<open>min_section_length\<close>: the
  entry of \<^verbatim>\<open>parse_sections\<close> describes no argument \<^verbatim>\<open>file_path\<close>.
\<close>

theorem parse_sections_entry_has_no_file_path:
  "tool_arguments (ContentTools example_runtime) ''parse_sections'' =
     [''{'text': {'description': 'text', 'title': 'Text', 'type': 'str'}, 'min_section_length': {'description': 'min_section_length', 'title': 'Min Section Length', 'type': 'int'}}''] \<and>
   \<not> contains
     ''{'text': {'description': 'text', 'title': 'Text', 'type': 'str'}, 'min_section_length': {'description': 'min_section_length', 'title': 'Min Section Length', 'type': 'int'}}''
     ''file_path''"
proof -
  have a: "tool_arguments (ContentTools example_runtime) ''parse_sections'' =
     [''{'text': {'description': 'text', 'title': 'Text', 'type': 'str'}, 'min_section_length': {'description': 'min_section_length', 'title': 'Min Section Length', 'type': 'int'}}'']"
    unfolding tool_arguments_lookup content_tools_arguments by simp
  have b: "\<not> contains
     ''{'text': {'description': 'text', 'title': 'Text', 'type': 'str'}, 'min_section_length': {'description': 'min_section_length', 'title': 'Min Section Length', 'type': 'int'}}''
     ''file_path''"
    by code_simp
  from a b show ?thesis by (rule conjI)
qed

text \<open>
  Claim C7, as amended. The entry of \<^verbatim>\<open>parse_sections\<close> describes its argument
  \<^verbatim>\<open>min_section_length\<close> with the type \<^verbatim>\<open>int\<close> and the title \<^verbatim>\<open>Min Section Length\<close>, and
  its argument \<^verbatim>\<open>text\<close> with the type \<^verbatim>\<open>str\<close> and the title \<^verbatim>\<open>Text\<close>. An argument
  \<^verbatim>\<open>file_path: str\<close> is described with the type \<^verbatim>\<open>str\<close> and the title \<^verbatim>\<open>File Path\<close>: in
  the entries of \<^verbatim>\<open>extract_text_from_pdf\<close> and \<^verbatim>\<open>extract_tables_from_pdf\<close>, and for a
  tool with the parameters \<^verbatim>\<open>file_path: str\<close> and \<^verbatim>\<open>min_section_length: int\<close>.
\<close>

theorem argument_schema:
  "tool_arguments (ContentTools rt) ''parse_sections'' =
     [''{'text': {'description': 'text', 'title': 'Text', 'type': 'str'}, 'min_section_length': {'description': 'min_section_length', 'title': 'Min Section Length', 'type': 'int'}}''] \<and>
   tool_arguments (ContentTools rt) ''extract_text_from_pdf'' =
     [''{'file_path': {'description': 'file_path', 'title': 'File Path', 'type': 'str'}}''] \<and>
   tool_arguments (ContentTools rt) ''extract_tables_from_pdf'' =
     [''{'file_path': {'description': 'file_path', 'title': 'File Path', 'type': 'str'}}''] \<and>
   param_entry \<lparr>param_name = ''min_section_length'', hint = Some int_type\<rparr> =
     JObject [(''description'', JString ''min_section_length''),
              (''title'', JString ''Min Section Length''), (''type'', JString ''int'')] \<and>
   param_entry \<lparr>param_name = ''text'', hint = Some str_type\<rparr> =
     JObject [(''description'', JString ''text''),
              (''title'', JString ''Text''), (''type'', JString ''str'')] \<and>
   param_entry \<lparr>param_name = ''file_path'', hint = Some str_type\<rparr> =
     JObject [(''description'', JString ''file_path''),
              (''title'', JString ''File Path''), (''type'', JString ''str'')] \<and>
   arguments_str [\<lparr>param_name = ''file_path'', hint = Some str_type\<rparr>,
                  \<lparr>param_name = ''min_section_length'', hint = Some int_type\<rparr>] =
     ''{'file_path': {'description': 'file_path', 'title': 'File Path', 'type': 'str'}, 'min_section_length': {'description': 'min_section_length', 'title': 'Min Section Length', 'type': 'int'}}''"
proof -
  have a: "tool_arguments (ContentTools rt) ''parse_sections'' =
     [''{'text': {'description': 'text', 'title': 'Text', 'type': 'str'}, 'min_section_length': {'description': 'min_section_length', 'title': 'Min Section Length', 'type': 'int'}}'']"
    unfolding tool_arguments_lookup content_tools_arguments by simp
  have b: "tool_arguments (ContentTools rt) ''extract_text_from_pdf'' =
     [''{'file_path': {'description': 'file_path', 'title': 'File Path', 'type': 'str'}}'']"
    unfolding tool_arguments_lookup content_tools_arguments by simp
  have c: "tool_arguments (ContentTools rt) ''extract_tables_from_pdf'' =
     [''{'file_path': {'description': 'file_path', 'title': 'File Path', 'type': 'str'}}'']"
    unfolding tool_arguments_lookup content_tools_arguments by simp
  have d: "param_entry \<lparr>param_name = ''min_section_length'', hint = Some int_type\<rparr> =
     JObject [(''description'', JString ''min_section_length''),
              (''title'', JString ''Min Section Length''), (''type'', JString ''int'')]"
    by code_simp
  have e: "param_entry \<lparr>param_name = ''text'', hint = Some str_type\<rparr> =
     JObject [(''description'', JString ''text''),
              (''title'', JString ''Text''), (''type'', JString ''str'')]"
    by code_simp
  have f: "param_entry \<lparr>param_name = ''file_path'', hint = Some str_type\<rparr> =
     JObject [(''description'', JString ''file_path''),
              (''title'', JString ''File Path''), (''type'', JString ''str'')]"
    by code_simp
  have g: "arguments_str [\<lparr>param_name = ''file_path'', hint = Some str_type\<rparr>,
                  \<lparr>param_name = ''min_section_length'', hint = Some int_type\<rparr>] =
     ''{'file_path': {'description': 'file_path', 'title': 'File Path', 'type': 'str'}, 'min_section_length': {'description': 'min_section_length', 'title': 'Min Section Length', 'type': 'int'}}''"
    by code_simp
  from a b c d e f g show ?thesis by (intro conjI)
qed

text \<open>The entry of \<^verbatim>\<open>extract_text_from_pdf\<close> under the runtime of the test scripts.\<close>

theorem argument_schema_witness:
  "tool_arguments (ContentTools example_runtime) ''extract_text_from_pdf'' =
     [''{'file_path': {'description': 'file_path', 'title': 'File Path', 'type': 'str'}}'']"
  using argument_schema [of example_runtime]
  by (rule conjunct2 [THEN conjunct1])

end
